theory Spec2Isabelle
  imports Main "HOL-Library.Sublist"
begin

section \<open>Values, errors and parse trees\<close>

text \<open>
  The transformer of \<^verbatim>\<open>src/ucumvert/parser.py\<close> builds Python dictionaries with string
  keys, lists of them, integers, strings and \<^verbatim>\<open>None\<close>. A dictionary keeps its keys in
  insertion order, so it is an association list with distinct keys.
\<close>

datatype pyval =
    PNone
  | PInt int
  | PStr string
  | PDict "(string \<times> pyval) list"
  | PList "pyval list"

text \<open>
  Exceptions of the Python code. \<open>GrammarError\<close> and \<open>UnexpectedInput\<close> are raised by
  the parsing library when a grammar cannot be built and when an input does not match the
  grammar; an exception raised inside a transformer callback reaches the caller wrapped
  in the library's \<open>VisitError\<close>.
\<close>

datatype py_exception = TypeError | IndexError | ValueError

datatype error = GrammarError | UnexpectedInput | VisitError py_exception

text \<open>
  A parse tree: a token carries the name of its terminal and the matched text, an inner
  node the name of its rule and its children.
\<close>

datatype terminal =
  T_PREFIX | T_METRIC | T_NON_METRIC | T_FACTOR | T_EXPONENT | T_ANNOTATION | T_OPERATOR | T_DIVIDE

datatype rule = R_start | R_term | R_component | R_annotatable | R_simple_unit

datatype tree = Token terminal string | Tree rule "tree list"

section \<open>Dictionary merge\<close>

text \<open>
  \<^verbatim>\<open>d[k] = v\<close>: an existing key keeps its position and gets the new value, a new key is
  appended.
\<close>

fun dict_set :: "string \<Rightarrow> pyval \<Rightarrow> (string \<times> pyval) list \<Rightarrow> (string \<times> pyval) list" where
  "dict_set k v [] = [(k, v)]"
| "dict_set k v ((k', v') # d) = (if k' = k then (k, v) # d else (k', v') # dict_set k v d)"

text \<open>
  \<^verbatim>\<open>{**a, **b}\<close>: both operands must be mappings, otherwise Python raises TypeError
  (a list, a string and None are not mappings). The entries of \<open>b\<close> are written into a
  copy of \<open>a\<close> from left to right.
\<close>

fun merge :: "pyval \<Rightarrow> pyval \<Rightarrow> error + pyval" where
  "merge (PDict a) (PDict b) = Inr (PDict (fold (\<lambda>(k, v). dict_set k v) b a))"
| "merge _ _ = Inl (VisitError TypeError)"

section \<open>Terminal callbacks of UnitsTransformer\<close>

text \<open>
  The library calls the method named after a terminal with the token, which is a string
  (a subclass of \<^verbatim>\<open>str\<close>). So \<^verbatim>\<open>len(args)\<close> counts characters, \<^verbatim>\<open>args[0]\<close> is the
  first character and \<^verbatim>\<open>args[:]\<close> the whole text.
\<close>

definition is_digit :: "char \<Rightarrow> bool" where
  "is_digit c = (c \<in> set ''0123456789'')"

definition digit_val :: "char \<Rightarrow> int" where
  "digit_val c = int (of_char c) - 48"

text \<open>
  \<^verbatim>\<open>int(s)\<close> on an optional sign followed by decimal digits; anything else raises
  ValueError. (Python also accepts surrounding blanks and underscores between digits;
  no token of this grammar contains them.) CPython from version 3.11 on also raises
  ValueError when the string has more than 4300 digits.
\<close>

definition digits_val :: "string \<Rightarrow> int" where
  "digits_val ds = foldl (\<lambda>a c. 10 * a + digit_val c) 0 ds"

definition py_int :: "string \<Rightarrow> error + int" where
  "py_int s =
     (let (neg, ds) = (case s of
                         c # r \<Rightarrow> if c = CHR ''-'' then (True, r)
                                  else if c = CHR ''+'' then (False, r) else (False, s)
                       | [] \<Rightarrow> (False, s))
      in if ds \<noteq> [] \<and> list_all is_digit ds \<and> length ds \<le> 4300
         then Inr (if neg then - digits_val ds else digits_val ds)
         else Inl (VisitError ValueError))"

text \<open>\<^verbatim>\<open>args[0]\<close> on a string: IndexError when it is empty.\<close>

definition first_char :: "string \<Rightarrow> error + string" where
  "first_char s = (case s of [] \<Rightarrow> Inl (VisitError IndexError) | c # _ \<Rightarrow> Inr [c])"

definition FACTOR :: "string \<Rightarrow> error + pyval" where
  "FACTOR args = (case py_int args of Inl e \<Rightarrow> Inl e
                  | Inr n \<Rightarrow> Inr (PDict [(''factor'', PInt n)]))"

text \<open>
  \<^verbatim>\<open>EXPONENT\<close> tests \<^verbatim>\<open>len(args)\<close>: a token of one character is converted from its
  first character, a token of two characters from \<^verbatim>\<open>"".join(args)\<close> (its characters
  joined, the token itself), and any other length returns None.
\<close>

definition EXPONENT :: "string \<Rightarrow> error + pyval" where
  "EXPONENT args =
     (if length args = 1 then
        (case py_int (take 1 args) of Inl e \<Rightarrow> Inl e
         | Inr n \<Rightarrow> Inr (PDict [(''exponent'', PInt n)]))
      else if length args = 2 then
        (case py_int args of Inl e \<Rightarrow> Inl e
         | Inr n \<Rightarrow> Inr (PDict [(''exponent'', PInt n)]))
      else Inr PNone)"

definition ANNOTATION :: "string \<Rightarrow> error + pyval" where
  "ANNOTATION args = (case first_char args of Inl e \<Rightarrow> Inl e
                      | Inr c \<Rightarrow> Inr (PDict [(''annotation'', PStr c)]))"

definition OPERATOR :: "string \<Rightarrow> error + pyval" where
  "OPERATOR args = (case first_char args of Inl e \<Rightarrow> Inl e
                    | Inr c \<Rightarrow> Inr (PDict [(''operator'', PStr c)]))"

definition DIVIDE :: "string \<Rightarrow> error + pyval" where
  "DIVIDE args = (case first_char args of Inl e \<Rightarrow> Inl e
                  | Inr c \<Rightarrow> Inr (PDict [(''operator'', PStr c)]))"

definition PREFIX :: "string \<Rightarrow> error + pyval" where
  "PREFIX args =
     (if args = ''da'' then Inr (PDict [(''prefix'', PStr (take 2 args))])
      else (case first_char args of Inl e \<Rightarrow> Inl e
            | Inr c \<Rightarrow> Inr (PDict [(''prefix'', PStr c)])))"

definition METRIC :: "string \<Rightarrow> error + pyval" where
  "METRIC args = Inr (PDict [(''type'', PStr ''metric''), (''unit'', PStr args)])"

definition NON_METRIC :: "string \<Rightarrow> error + pyval" where
  "NON_METRIC args = Inr (PDict [(''type'', PStr ''non_metric''), (''unit'', PStr args)])"

section \<open>Rule callbacks of UnitsTransformer\<close>

text \<open>
  The library calls the method named after a rule with the list of the already
  transformed children. In \<^verbatim>\<open>start\<close>, a second child that is not a dictionary is indexed:
  \<^verbatim>\<open>[{**args[0], **args[1][0]}] + args[1][1:]\<close>. The first operand of the merge is
  unpacked before the second is indexed, so an empty second child raises IndexError only
  when the first child is a dictionary.
\<close>

fun start :: "pyval list \<Rightarrow> error + pyval" where
  "start [a0] = Inr (PList [a0])"
| "start [a0, PDict d] =
     (case merge a0 (PDict d) of Inl e \<Rightarrow> Inl e | Inr m \<Rightarrow> Inr (PList [m]))"
| "start [a0, PList (x # xs)] =
     (case merge a0 x of Inl e \<Rightarrow> Inl e | Inr m \<Rightarrow> Inr (PList (m # xs)))"
| "start [PDict d0, PList []] = Inl (VisitError IndexError)"
| "start [PDict d0, PStr []] = Inl (VisitError IndexError)"
| "start [a0, _] = Inl (VisitError TypeError)"
| "start _ = Inr PNone"

text \<open>The method \<^verbatim>\<open>term\<close>; the name is reserved in Isabelle.\<close>

fun term_rule :: "pyval list \<Rightarrow> error + pyval" where
  "term_rule [a0] = Inr a0"
| "term_rule [PDict d, a1, a2] =
     (case merge a1 a2 of Inl e \<Rightarrow> Inl e | Inr m \<Rightarrow> Inr (PList [PDict d, m]))"
| "term_rule [PList xs, a1, a2] =
     (case merge a1 a2 of Inl e \<Rightarrow> Inl e | Inr m \<Rightarrow> Inr (PList (xs @ [m])))"
| "term_rule [_, a1, a2] = Inl (VisitError TypeError)"
| "term_rule _ = Inr PNone"

fun component :: "pyval list \<Rightarrow> error + pyval" where
  "component [a0] = Inr a0"
| "component [a0, a1] = merge a0 a1"
| "component _ = Inr PNone"

fun simple_unit :: "pyval list \<Rightarrow> error + pyval" where
  "simple_unit [a0] = Inr a0"
| "simple_unit [a0, a1] = merge a0 a1"
| "simple_unit _ = Inr PNone"

fun annotatable :: "pyval list \<Rightarrow> error + pyval" where
  "annotatable [a0] = Inr a0"
| "annotatable [a0, a1] = merge a0 a1"
| "annotatable _ = Inr PNone"

section \<open>The transformer\<close>

text \<open>
  \<^verbatim>\<open>Transformer.transform\<close> works bottom-up: the children of a node are transformed from
  left to right, then the method of the node is called on the results. The first
  exception ends the transformation.
\<close>

definition token_callback :: "terminal \<Rightarrow> string \<Rightarrow> error + pyval" where
  "token_callback ty v =
     (case ty of
        T_PREFIX \<Rightarrow> PREFIX v
      | T_METRIC \<Rightarrow> METRIC v
      | T_NON_METRIC \<Rightarrow> NON_METRIC v
      | T_FACTOR \<Rightarrow> FACTOR v
      | T_EXPONENT \<Rightarrow> EXPONENT v
      | T_ANNOTATION \<Rightarrow> ANNOTATION v
      | T_OPERATOR \<Rightarrow> OPERATOR v
      | T_DIVIDE \<Rightarrow> DIVIDE v)"

definition rule_callback :: "rule \<Rightarrow> pyval list \<Rightarrow> error + pyval" where
  "rule_callback r args =
     (case r of
        R_start \<Rightarrow> start args
      | R_term \<Rightarrow> term_rule args
      | R_component \<Rightarrow> component args
      | R_annotatable \<Rightarrow> annotatable args
      | R_simple_unit \<Rightarrow> simple_unit args)"

fun collect :: "(error + 'a) list \<Rightarrow> error + 'a list" where
  "collect [] = Inr []"
| "collect (Inl e # _) = Inl e"
| "collect (Inr v # rs) = (case collect rs of Inl e \<Rightarrow> Inl e | Inr vs \<Rightarrow> Inr (v # vs))"

fun transform :: "tree \<Rightarrow> error + pyval" where
  "transform (Token ty v) = token_callback ty v"
| "transform (Tree r cs) =
     (case collect (map transform cs) of Inl e \<Rightarrow> Inl e | Inr vs \<Rightarrow> rule_callback r vs)"

section \<open>The vocabulary and the grammar\<close>

text \<open>
  Modelled from the spec: the vocabulary comes from \<^verbatim>\<open>ucumvert.xml_util\<close>, which is
  not part of the sources at hand. Its four accessors return lists of symbols; they are
  the fields of a record, so every statement below is about an arbitrary vocabulary or
  names the one it uses.
\<close>

record vocabulary =
  get_prefixes :: "string list"
  get_base_units :: "string list"
  get_metric_units :: "string list"
  get_non_metric_units :: "string list"

text \<open>
  \<^verbatim>\<open>ucum_parser\<close> fills the three holes of \<^verbatim>\<open>UCUM_GRAMMAR\<close>: each hole receives the
  quoted symbols joined by \<^verbatim>\<open>" | "\<close>, in the order of the list. The record holds, for each
  hole, the alternatives in their textual order; the rest of the grammar text is fixed.
  (A symbol is taken to need no escaping between double quotes: it contains no double
  quote, no backslash and no line break.)
\<close>

record grammar_text =
  prefix_rule :: "string list"
  metric_rule :: "string list"
  non_metric_rule :: "string list"

definition format_grammar :: "vocabulary \<Rightarrow> grammar_text" where
  "format_grammar V =
     \<lparr> prefix_rule = get_prefixes V,
       metric_rule = get_base_units V @ get_metric_units V,
       non_metric_rule = get_non_metric_units V \<rparr>"

text \<open>
  \<^verbatim>\<open>Lark(ucum_grammar)\<close> compiles the grammar text. The constructor belongs to the
  parsing library, not to the repository; the model keeps what the grammar of this file
  depends on:
  \<^item> a terminal whose definition is empty is rejected (\<^verbatim>\<open>Terminals cannot be empty\<close>),
    and so is a terminal that can match the empty string
    (\<^verbatim>\<open>Dynamic Earley doesn't allow zero-width regexps\<close>), both with \<open>GrammarError\<close>;
  \<^item> the alternatives of a terminal are joined into one regular expression after a
    stable sort by decreasing width, so that the expression prefers the longest literal;
  \<^item> the default parser is Earley with the dynamic lexer.
  The compiled grammar is the three lists of literals in the order of their regular
  expressions; the rules are the functions of the next sections.
\<close>

record lark =
  PREFIX_alts :: "string list"
  METRIC_alts :: "string list"
  NON_METRIC_alts :: "string list"

definition by_width :: "string list \<Rightarrow> string list" where
  "by_width xs = sort_key (\<lambda>s. - int (length s)) xs"

definition bad_terminal :: "string list \<Rightarrow> bool" where
  "bad_terminal xs = (xs = [] \<or> [] \<in> set xs)"

definition Lark :: "grammar_text \<Rightarrow> error + lark" where
  "Lark g =
     (if bad_terminal (prefix_rule g) \<or> bad_terminal (metric_rule g)
         \<or> bad_terminal (non_metric_rule g)
      then Inl GrammarError
      else Inr \<lparr> PREFIX_alts = by_width (prefix_rule g),
                 METRIC_alts = by_width (metric_rule g),
                 NON_METRIC_alts = by_width (non_metric_rule g) \<rparr>)"

definition ucum_parser :: "vocabulary \<Rightarrow> error + lark" where
  "ucum_parser V = Lark (format_grammar V)"

section \<open>Terminals\<close>

text \<open>
  The parser asks, at a position of the input, for the match of the regular expression
  of each terminal it expects there; a match is the one Python's \<^verbatim>\<open>re.match\<close> returns.
  Each function returns the token and the rest of the input.
\<close>

text \<open>An alternation of literals matches its first alternative that the input starts with.\<close>

definition lex_literal :: "string list \<Rightarrow> string \<Rightarrow> (string \<times> string) option" where
  "lex_literal alts s =
     (case find (\<lambda>a. prefix a s) alts of
        None \<Rightarrow> None
      | Some a \<Rightarrow> Some (a, drop (length a) s))"

text \<open>\<^verbatim>\<open>NON_ZERO_DIGITS : /[1-9][0-9]*/\<close>\<close>

definition lex_NON_ZERO_DIGITS :: "string \<Rightarrow> (string \<times> string) option" where
  "lex_NON_ZERO_DIGITS s =
     (case s of
        [] \<Rightarrow> None
      | c # r \<Rightarrow> if is_digit c \<and> c \<noteq> CHR ''0''
                 then Some (c # takeWhile is_digit r, dropWhile is_digit r)
                 else None)"

text \<open>\<^verbatim>\<open>FACTOR: NON_ZERO_DIGITS\<close>\<close>

definition lex_FACTOR :: "string \<Rightarrow> (string \<times> string) option" where
  "lex_FACTOR s = lex_NON_ZERO_DIGITS s"

text \<open>\<^verbatim>\<open>EXPONENT : ["+"|"-"] NON_ZERO_DIGITS\<close>\<close>

definition lex_EXPONENT :: "string \<Rightarrow> (string \<times> string) option" where
  "lex_EXPONENT s =
     (case s of
        [] \<Rightarrow> None
      | c # r \<Rightarrow> if c = CHR ''+'' \<or> c = CHR ''-''
                 then (case lex_NON_ZERO_DIGITS r of
                         None \<Rightarrow> None
                       | Some (t, r') \<Rightarrow> Some (c # t, r'))
                 else lex_NON_ZERO_DIGITS s)"

text \<open>
  \<^verbatim>\<open>ANNOTATION: "{" STRING "}"\<close> with \<^verbatim>\<open>STRING: /[\x21-\x7E]*/\<close>. The star is greedy:
  it takes the whole run of characters 33 to 126, braces included, and gives characters
  back until a closing brace follows. So the token ends at the last closing brace of
  the run.
\<close>

definition is_printable :: "char \<Rightarrow> bool" where
  "is_printable c = (33 \<le> (of_char c :: nat) \<and> (of_char c :: nat) \<le> 126)"

definition upto_last_brace :: "string \<Rightarrow> string" where
  "upto_last_brace run = rev (dropWhile (\<lambda>c. c \<noteq> CHR ''}'') (rev run))"

definition lex_ANNOTATION :: "string \<Rightarrow> (string \<times> string) option" where
  "lex_ANNOTATION s =
     (case s of
        [] \<Rightarrow> None
      | c # r \<Rightarrow>
          if c = CHR ''{'' then
            (let body = upto_last_brace (takeWhile is_printable r)
             in if body = [] then None else Some (c # body, drop (length body) r))
          else None)"

text \<open>\<^verbatim>\<open>OPERATOR: "." | DIVIDE\<close> and \<^verbatim>\<open>DIVIDE: "/"\<close>\<close>

definition lex_OPERATOR :: "string \<Rightarrow> (string \<times> string) option" where
  "lex_OPERATOR s =
     (case s of
        [] \<Rightarrow> None
      | c # r \<Rightarrow> if c = CHR ''.'' \<or> c = CHR ''/'' then Some ([c], r) else None)"

definition lex_DIVIDE :: "string \<Rightarrow> (string \<times> string) option" where
  "lex_DIVIDE s =
     (case s of
        [] \<Rightarrow> None
      | c # r \<Rightarrow> if c = CHR ''/'' then Some ([c], r) else None)"

section \<open>The rules of the grammar\<close>

text \<open>
  The parser is an Earley parser over the characters of the input: it finds every
  derivation of the input from \<^verbatim>\<open>start\<close> in which each terminal is the match of its
  regular expression at its position. The functions below enumerate these derivations,
  rule by rule, alternative by alternative: each returns the trees a rule derives from
  a prefix of the input, with the rest of the input. The literals \<^verbatim>\<open>"("\<close> and \<^verbatim>\<open>")"\<close>
  are anonymous tokens, which the library leaves out of the tree.

  The rules \<^verbatim>\<open>term\<close> and \<^verbatim>\<open>annotatable\<close> are recursive, so the enumeration runs on fuel
  and returns \<open>None\<close> when the fuel is used up; \<open>Some []\<close> means that there is no
  derivation.
\<close>

type_synonym 'a results = "('a \<times> string) list option"

definition bind_all ::
  "'a results \<Rightarrow> ('a \<Rightarrow> string \<Rightarrow> 'b results) \<Rightarrow> 'b results" where
  "bind_all m f =
     (case m of
        None \<Rightarrow> None
      | Some xs \<Rightarrow> map_option concat (those (map (\<lambda>(a, r). f a r) xs)))"

definition both :: "'a results \<Rightarrow> 'a results \<Rightarrow> 'a results" where
  "both m1 m2 =
     (case m1 of
        None \<Rightarrow> None
      | Some xs \<Rightarrow> (case m2 of None \<Rightarrow> None | Some ys \<Rightarrow> Some (xs @ ys)))"

definition token_of ::
  "terminal \<Rightarrow> (string \<times> string) option \<Rightarrow> (tree \<times> string) list" where
  "token_of ty m = (case m of None \<Rightarrow> [] | Some (v, r) \<Rightarrow> [(Token ty v, r)])"

text \<open>
  \<^verbatim>\<open>simple_unit: METRIC | PREFIX? METRIC | NON_METRIC | FACTOR\<close>; the optional prefix
  gives the alternatives \<^verbatim>\<open>METRIC\<close> (a duplicate of the first) and \<^verbatim>\<open>PREFIX METRIC\<close>.
\<close>

definition p_simple_unit :: "lark \<Rightarrow> string \<Rightarrow> (tree \<times> string) list" where
  "p_simple_unit G s =
     map (\<lambda>(t, r). (Tree R_simple_unit [t], r)) (token_of T_METRIC (lex_literal (METRIC_alts G) s))
     @ concat (map (\<lambda>(p, r). map (\<lambda>(t, r'). (Tree R_simple_unit [p, t], r'))
                                 (token_of T_METRIC (lex_literal (METRIC_alts G) r)))
                   (token_of T_PREFIX (lex_literal (PREFIX_alts G) s)))
     @ map (\<lambda>(t, r). (Tree R_simple_unit [t], r))
           (token_of T_NON_METRIC (lex_literal (NON_METRIC_alts G) s))
     @ map (\<lambda>(t, r). (Tree R_simple_unit [t], r)) (token_of T_FACTOR (lex_FACTOR s))"

text \<open>
  \<^verbatim>\<open>annotatable: simple_unit EXPONENT | simple_unit | "(" term ")"\<close>; the argument
  \<open>rec\<close> enumerates \<^verbatim>\<open>term\<close>.
\<close>

definition p_annotatable :: "lark \<Rightarrow> (string \<Rightarrow> tree results) \<Rightarrow> string \<Rightarrow> tree results" where
  "p_annotatable G rec s =
     both
       (Some (concat (map (\<lambda>(u, r).
                  map (\<lambda>(e, r'). (Tree R_annotatable [u, e], r')) (token_of T_EXPONENT (lex_EXPONENT r))
                  @ [(Tree R_annotatable [u], r)])
                (p_simple_unit G s))))
       (case s of
          [] \<Rightarrow> Some []
        | c # r \<Rightarrow>
            if c = CHR ''('' then
              bind_all (rec r) (\<lambda>t r'.
                (case r' of
                   [] \<Rightarrow> Some []
                 | d # r'' \<Rightarrow> if d = CHR '')'' then Some [(Tree R_annotatable [t], r'')]
                              else Some []))
            else Some [])"

text \<open>\<^verbatim>\<open>component: annotatable ANNOTATION | annotatable | ANNOTATION\<close>\<close>

definition p_component :: "lark \<Rightarrow> (string \<Rightarrow> tree results) \<Rightarrow> string \<Rightarrow> tree results" where
  "p_component G rec s =
     both
       (bind_all (p_annotatable G rec s) (\<lambda>a r.
          Some (map (\<lambda>(n, r'). (Tree R_component [a, n], r'))
                    (token_of T_ANNOTATION (lex_ANNOTATION r))
                @ [(Tree R_component [a], r)])))
       (Some (map (\<lambda>(n, r). (Tree R_component [n], r))
                  (token_of T_ANNOTATION (lex_ANNOTATION s))))"

text \<open>
  \<^verbatim>\<open>term: term OPERATOR component | component\<close>. The rule is left recursive: a term is
  a component followed by any number of operator and component pairs, and its tree nests
  to the left. \<open>p_term_rest\<close> extends the term \<open>t\<close> read so far.
\<close>

primrec p_term_rest ::
  "(string \<Rightarrow> tree results) \<Rightarrow> nat \<Rightarrow> tree \<Rightarrow> string \<Rightarrow> tree results" where
  "p_term_rest pc 0 = (\<lambda>t r. None)"
| "p_term_rest pc (Suc k) = (\<lambda>t r.
     both (Some [(t, r)])
       (case lex_OPERATOR r of
          None \<Rightarrow> Some []
        | Some (opr, r1) \<Rightarrow>
            bind_all (pc r1) (\<lambda>c r2.
              p_term_rest pc k (Tree R_term [t, Token T_OPERATOR opr, c]) r2)))"

primrec p_term :: "lark \<Rightarrow> nat \<Rightarrow> string \<Rightarrow> tree results" where
  "p_term G 0 = (\<lambda>s. None)"
| "p_term G (Suc n) = (\<lambda>s.
     bind_all (p_component G (p_term G n) s) (\<lambda>c r.
       p_term_rest (p_component G (p_term G n)) n (Tree R_term [c]) r))"

text \<open>\<^verbatim>\<open>start: DIVIDE term | term\<close>\<close>

definition p_start :: "lark \<Rightarrow> nat \<Rightarrow> string \<Rightarrow> tree results" where
  "p_start G n s =
     both
       (case lex_DIVIDE s of
          None \<Rightarrow> Some []
        | Some (d, r) \<Rightarrow>
            bind_all (p_term G n r) (\<lambda>t r'. Some [(Tree R_start [Token T_DIVIDE d, t], r')]))
       (bind_all (p_term G n s) (\<lambda>t r. Some [(Tree R_start [t], r)]))"

text \<open>
  The derivations of the whole input. Every component consumes a character, so one unit
  of fuel for each character of the input and one more are enough: \<open>derivations\<close> never
  returns \<open>None\<close> on a compiled grammar (lemma \<open>derivations_sound\<close> below).
\<close>

definition derivations :: "lark \<Rightarrow> string \<Rightarrow> tree list option" where
  "derivations G s =
     map_option (\<lambda>xs. map fst (filter (\<lambda>(t, r). r = []) xs)) (p_start G (Suc (length s)) s)"

text \<open>
  \<^verbatim>\<open>Lark.parse\<close>: no derivation is the library's \<open>UnexpectedInput\<close>. Where an input has
  several derivations the library chooses one of them; the model takes the first in the
  order of the alternatives, and the statements below say how many derivations their
  inputs have.
\<close>

definition parse :: "lark \<Rightarrow> string \<Rightarrow> (error + tree) option" where
  "parse G s =
     (case derivations G s of
        None \<Rightarrow> None
      | Some [] \<Rightarrow> Some (Inl UnexpectedInput)
      | Some (t # _) \<Rightarrow> Some (Inr t))"

text \<open>
  \<^verbatim>\<open>parse_and_transform(UnitsTransformer, data)\<close>: build the grammar, parse, transform.
  The value \<open>None\<close> stands for the enumeration running out of fuel, which does not
  happen (lemma \<open>parse_and_transform_returns\<close> below).
\<close>

definition parse_and_transform :: "vocabulary \<Rightarrow> string \<Rightarrow> (error + pyval) option" where
  "parse_and_transform V data =
     (case ucum_parser V of
        Inl e \<Rightarrow> Some (Inl e)
      | Inr G \<Rightarrow>
          (case parse G data of
             None \<Rightarrow> None
           | Some (Inl e) \<Rightarrow> Some (Inl e)
           | Some (Inr t) \<Rightarrow> Some (transform t)))"

section \<open>A sample vocabulary\<close>

text \<open>
  Modelled from the spec: the vocabulary file read by \<^verbatim>\<open>ucumvert.xml_util\<close> is not part
  of the sources at hand. The sample holds the prefixes and base units of UCUM and a few
  further atoms, among them the symbols that the examples of the specification use:
  the prefix \<open>k\<close> and the metric atoms \<open>g\<close>, \<open>m\<close>, \<open>s\<close> and \<open>h\<close>.
\<close>

definition sample_vocabulary :: vocabulary where
  "sample_vocabulary =
     \<lparr> get_prefixes = [''Y'', ''Z'', ''E'', ''P'', ''T'', ''G'', ''M'', ''k'', ''h'', ''da'', ''d'',
                        ''c'', ''m'', ''u'', ''n'', ''p'', ''f'', ''a'', ''z'', ''y'',
                        ''Ki'', ''Mi'', ''Gi'', ''Ti''],
       get_base_units = [''m'', ''s'', ''g'', ''rad'', ''K'', ''C'', ''cd''],
       get_metric_units = [''mol'', ''h'', ''l'', ''L'', ''ar'', ''Pa'', ''N''],
       get_non_metric_units = [''min'', ''d'', ''a'', ''%'', ''10*''] \<rparr>"

text \<open>The grammar compiled from the sample vocabulary.\<close>

definition sample_lark :: lark where
  "sample_lark =
     \<lparr> PREFIX_alts = [''da'', ''Ki'', ''Mi'', ''Gi'', ''Ti'', ''Y'', ''Z'', ''E'', ''P'', ''T'',
                       ''G'', ''M'', ''k'', ''h'', ''d'', ''c'', ''m'', ''u'', ''n'', ''p'', ''f'',
                       ''a'', ''z'', ''y''],
       METRIC_alts = [''rad'', ''mol'', ''cd'', ''ar'', ''Pa'', ''m'', ''s'', ''g'', ''K'', ''C'',
                       ''h'', ''l'', ''L'', ''N''],
       NON_METRIC_alts = [''min'', ''10*'', ''d'', ''a'', ''%''] \<rparr>"

text \<open>
  Two further vocabularies that meet the contract of the vocabulary provider (non-empty
  lists of printable symbols, no symbol in two lists) and in which one symbol is the
  start of another. In the first, \<open>m2\<close> is a metric atom beside \<open>m\<close>; in the second,
  \<open>mm\<close> is a prefix beside \<open>m\<close>.
\<close>

definition m2_vocabulary :: vocabulary where
  "m2_vocabulary =
     \<lparr> get_prefixes = [''k''], get_base_units = [''m''], get_metric_units = [''m2''],
       get_non_metric_units = [''%''] \<rparr>"


section \<open>Properties of derivations\<close>

text \<open>The digits of a FACTOR or EXPONENT token: the token without its sign.\<close>

definition number_digits :: "string \<Rightarrow> string" where
  "number_digits v =
     (case v of [] \<Rightarrow> [] | c # r \<Rightarrow> if c = CHR ''+'' \<or> c = CHR ''-'' then r else v)"

text \<open>A number whose first digit is not zero.\<close>

definition nonzero_number :: "string \<Rightarrow> bool" where
  "nonzero_number v =
     (case number_digits v of
        [] \<Rightarrow> False
      | d # ds \<Rightarrow> is_digit d \<and> d \<noteq> CHR ''0'' \<and> list_all is_digit ds)"

text \<open>Every FACTOR and EXPONENT token of a tree is such a number.\<close>

fun numbers_nonzero :: "tree \<Rightarrow> bool" where
  "numbers_nonzero (Token ty v) =
     (if ty = T_FACTOR \<or> ty = T_EXPONENT then nonzero_number v else True)"
| "numbers_nonzero (Tree r cs) = list_all numbers_nonzero cs"

text \<open>No alternative of a literal terminal is the empty string.\<close>

definition wf_lark :: "lark \<Rightarrow> bool" where
  "wf_lark G = ([] \<notin> set (PREFIX_alts G) \<and> [] \<notin> set (METRIC_alts G) \<and> [] \<notin> set (NON_METRIC_alts G))"

text \<open>
  The enumeration has not run out of fuel, every tree satisfies \<open>Q\<close> and every rest is
  shorter than \<open>l\<close>.
\<close>

definition produces :: "('a \<Rightarrow> bool) \<Rightarrow> nat \<Rightarrow> 'a results \<Rightarrow> bool" where
  "produces Q l m = (\<exists>xs. m = Some xs \<and> (\<forall>(t, r)\<in>set xs. Q t \<and> length r < l))"


section \<open>Evaluation\<close>

lemma ucum_parser_sample: "ucum_parser sample_vocabulary = Inr sample_lark"
  by (simp add: ucum_parser_def Lark_def format_grammar_def sample_vocabulary_def
      sample_lark_def bad_terminal_def by_width_def)

lemma bind_all_simps:
  "bind_all None f = None"
  "bind_all (Some []) f = Some []"
  "bind_all (Some ((a, r) # xs)) f = both (f a r) (bind_all (Some xs) f)"
  by (auto simp: bind_all_def both_def split: option.splits)

lemma both_simps:
  "both None m = None"
  "both (Some xs) None = None"
  "both (Some xs) (Some ys) = Some (xs @ ys)"
  by (auto simp: both_def split: option.splits)

lemma p_term_Suc:
  "p_term G (Suc n) s =
     bind_all (p_component G (p_term G n) s) (\<lambda>c r.
       p_term_rest (p_component G (p_term G n)) n (Tree R_term [c]) r)"
  by simp

lemma p_term_0: "p_term G 0 s = None"
  by simp

lemma p_term_rest_Suc:
  "p_term_rest pc (Suc k) t r =
     both (Some [(t, r)])
       (case lex_OPERATOR r of
          None \<Rightarrow> Some []
        | Some (opr, r1) \<Rightarrow>
            bind_all (pc r1) (\<lambda>c r2.
              p_term_rest pc k (Tree R_term [t, Token T_OPERATOR opr, c]) r2))"
  by simp

lemma p_term_rest_0: "p_term_rest pc 0 t r = None"
  by simp

lemmas parse_eval =
  derivations_def p_start_def p_term_Suc p_term_0 p_term_rest_Suc p_term_rest_0
  p_component_def p_annotatable_def p_simple_unit_def token_of_def
  lex_literal_def lex_NON_ZERO_DIGITS_def lex_FACTOR_def lex_EXPONENT_def lex_ANNOTATION_def
  lex_OPERATOR_def lex_DIVIDE_def is_digit_def is_printable_def upto_last_brace_def
  bind_all_simps both_simps sample_lark_def

lemmas transform_eval =
  parse_and_transform_def ucum_parser_sample parse_def
  token_callback_def rule_callback_def
  FACTOR_def EXPONENT_def ANNOTATION_def OPERATOR_def DIVIDE_def PREFIX_def METRIC_def
  NON_METRIC_def py_int_def digits_val_def digit_val_def is_digit_def first_char_def

lemma derivations_kg_m_s2:
  "derivations sample_lark ''kg.m/s2'' =
     Some [Tree R_start [Tree R_term
       [Tree R_term
          [Tree R_term [Tree R_component [Tree R_annotatable
             [Tree R_simple_unit [Token T_PREFIX ''k'', Token T_METRIC ''g'']]]],
           Token T_OPERATOR ''.'',
           Tree R_component [Tree R_annotatable [Tree R_simple_unit [Token T_METRIC ''m'']]]],
        Token T_OPERATOR ''/'',
        Tree R_component [Tree R_annotatable
          [Tree R_simple_unit [Token T_METRIC ''s''], Token T_EXPONENT ''2'']]]]]"
  by (simp add: parse_eval del: p_term.simps p_term_rest.simps)

lemma derivations_100_cells:
  "derivations sample_lark ''100/{cells}'' =
     Some [Tree R_start [Tree R_term
       [Tree R_term [Tree R_component [Tree R_annotatable
          [Tree R_simple_unit [Token T_FACTOR ''100'']]]],
        Token T_OPERATOR ''/'',
        Tree R_component [Token T_ANNOTATION ''{cells}'']]]]"
  by (simp add: parse_eval del: p_term.simps p_term_rest.simps)

lemma derivations_g_8h_shift:
  "derivations sample_lark ''g/(8.h){shift}'' =
     Some [Tree R_start [Tree R_term
       [Tree R_term [Tree R_component [Tree R_annotatable
          [Tree R_simple_unit [Token T_METRIC ''g'']]]],
        Token T_OPERATOR ''/'',
        Tree R_component
          [Tree R_annotatable [Tree R_term
             [Tree R_term [Tree R_component [Tree R_annotatable
                [Tree R_simple_unit [Token T_FACTOR ''8'']]]],
              Token T_OPERATOR ''.'',
              Tree R_component [Tree R_annotatable
                [Tree R_simple_unit [Token T_METRIC ''h'']]]]],
           Token T_ANNOTATION ''{shift}'']]]]"
  by (simp add: parse_eval del: p_term.simps p_term_rest.simps)

lemma derivations_m23:
  "derivations sample_lark ''m23'' =
     Some [Tree R_start [Tree R_term [Tree R_component [Tree R_annotatable
       [Tree R_simple_unit [Token T_METRIC ''m''], Token T_EXPONENT ''23'']]]]]"
  by (simp add: parse_eval del: p_term.simps p_term_rest.simps)

lemma derivations_m123:
  "derivations sample_lark ''m123'' =
     Some [Tree R_start [Tree R_term [Tree R_component [Tree R_annotatable
       [Tree R_simple_unit [Token T_METRIC ''m''], Token T_EXPONENT ''123'']]]]]"
  by (simp add: parse_eval del: p_term.simps p_term_rest.simps)

lemma derivations_m_minus_12:
  "derivations sample_lark ''m-12'' =
     Some [Tree R_start [Tree R_term [Tree R_component [Tree R_annotatable
       [Tree R_simple_unit [Token T_METRIC ''m''], Token T_EXPONENT ''-12'']]]]]"
  by (simp add: parse_eval del: p_term.simps p_term_rest.simps)

lemma derivations_m0: "derivations sample_lark ''m0'' = Some []"
  by (simp add: parse_eval del: p_term.simps p_term_rest.simps)

lemma derivations_0: "derivations sample_lark ''0'' = Some []"
  by (simp add: parse_eval del: p_term.simps p_term_rest.simps)

lemma derivations_two_annotations:
  "derivations sample_lark ''{a}.{b}'' =
     Some [Tree R_start [Tree R_term [Tree R_component [Token T_ANNOTATION ''{a}.{b}'']]]]"
  by (simp add: parse_eval del: p_term.simps p_term_rest.simps)

lemma derivations_mmol:
  "derivations sample_lark ''mmol'' =
     Some [Tree R_start [Tree R_term [Tree R_component [Tree R_annotatable
       [Tree R_simple_unit [Token T_PREFIX ''m'', Token T_METRIC ''mol'']]]]]]"
  by (simp add: parse_eval del: p_term.simps p_term_rest.simps)

subsection \<open>The order of the alternatives\<close>

lemma by_width_set: "set (by_width xs) = set xs"
  by (simp add: by_width_def)





subsection \<open>Unambiguous literals\<close>

lemma lex_literal_unique:
  assumes "a \<in> set xs" and "prefix a s" and "\<forall>b\<in>set xs. prefix b s \<longrightarrow> b = a"
  shows "lex_literal (by_width xs) s = Some (a, drop (length a) s)"
proof -
  from assms(1,2) have "find (\<lambda>a. prefix a s) (by_width xs) \<noteq> None"
    by (auto simp: find_None_iff by_width_set)
  then obtain b where b: "find (\<lambda>a. prefix a s) (by_width xs) = Some b"
    by blast
  then have "b \<in> set (by_width xs)" and "prefix b s"
    by (auto simp: find_Some_iff)
  with assms(3) have "b = a"
    by (simp add: by_width_set)
  with b show ?thesis
    by (simp add: lex_literal_def)
qed

lemma lex_literal_none:
  assumes "\<forall>b\<in>set xs. \<not> prefix b s"
  shows "lex_literal (by_width xs) s = None"
proof -
  from assms have "find (\<lambda>a. prefix a s) (by_width xs) = None"
    by (simp add: find_None_iff by_width_set)
  then show ?thesis
    by (simp add: lex_literal_def)
qed

lemma prefix_km2: "prefix b ''km2'' \<longleftrightarrow> b = [] \<or> b = ''k'' \<or> b = ''km'' \<or> b = ''km2''"
  by (auto simp: prefix_Cons)

lemma prefix_m2: "prefix b ''m2'' \<longleftrightarrow> b = [] \<or> b = ''m'' \<or> b = ''m2''"
  by (auto simp: prefix_Cons)

lemma Lark_alts:
  assumes "ucum_parser V = Inr G"
  shows "PREFIX_alts G = by_width (get_prefixes V)"
    and "METRIC_alts G = by_width (get_base_units V @ get_metric_units V)"
    and "NON_METRIC_alts G = by_width (get_non_metric_units V)"
    and "[] \<notin> set (get_prefixes V)"
    and "[] \<notin> set (get_base_units V @ get_metric_units V)"
    and "[] \<notin> set (get_non_metric_units V)"
  using assms
  by (auto simp: ucum_parser_def Lark_def format_grammar_def bad_terminal_def split: if_splits)

lemma km2_tokens:
  assumes "ucum_parser V = Inr G"
    and "''k'' \<in> set (get_prefixes V)"
    and "''m'' \<in> set (get_base_units V @ get_metric_units V)"
    and "''km'' \<notin> set (get_prefixes V)" and "''km2'' \<notin> set (get_prefixes V)"
    and "''k'' \<notin> set (get_base_units V @ get_metric_units V)"
    and "''km'' \<notin> set (get_base_units V @ get_metric_units V)"
    and "''km2'' \<notin> set (get_base_units V @ get_metric_units V)"
    and "''m2'' \<notin> set (get_base_units V @ get_metric_units V)"
    and "''k'' \<notin> set (get_non_metric_units V)"
    and "''km'' \<notin> set (get_non_metric_units V)"
    and "''km2'' \<notin> set (get_non_metric_units V)"
  shows "lex_literal (PREFIX_alts G) ''km2'' = Some (''k'', ''m2'')"
    and "lex_literal (METRIC_alts G) ''m2'' = Some (''m'', ''2'')"
    and "lex_literal (METRIC_alts G) ''km2'' = None"
    and "lex_literal (NON_METRIC_alts G) ''km2'' = None"
proof -
  note G = Lark_alts[OF assms(1)]
  have pk: "prefix ''k'' ''km2''" and pm: "prefix ''m'' ''m2''"
    by simp_all
  have "\<forall>b\<in>set (get_prefixes V). prefix b ''km2'' \<longrightarrow> b = ''k''"
  proof (intro ballI impI)
    fix b assume b: "b \<in> set (get_prefixes V)" and "prefix b ''km2''"
    then have "b = [] \<or> b = ''k'' \<or> b = ''km'' \<or> b = ''km2''"
      by (simp only: prefix_km2)
    with b assms(4,5) G(4) show "b = ''k''"
      by metis
  qed
  from lex_literal_unique[OF assms(2) pk this]
  show "lex_literal (PREFIX_alts G) ''km2'' = Some (''k'', ''m2'')"
    unfolding G(1) by simp
  have "\<forall>b\<in>set (get_base_units V @ get_metric_units V). prefix b ''m2'' \<longrightarrow> b = ''m''"
  proof (intro ballI impI)
    fix b assume b: "b \<in> set (get_base_units V @ get_metric_units V)" and "prefix b ''m2''"
    then have "b = [] \<or> b = ''m'' \<or> b = ''m2''"
      by (simp only: prefix_m2)
    with b assms(9) G(5) show "b = ''m''"
      by metis
  qed
  from lex_literal_unique[OF assms(3) pm this]
  show "lex_literal (METRIC_alts G) ''m2'' = Some (''m'', ''2'')"
    unfolding G(2) by simp
  have "\<forall>b\<in>set (get_base_units V @ get_metric_units V). \<not> prefix b ''km2''"
  proof (intro ballI notI)
    fix b assume b: "b \<in> set (get_base_units V @ get_metric_units V)" and "prefix b ''km2''"
    then have "b = [] \<or> b = ''k'' \<or> b = ''km'' \<or> b = ''km2''"
      by (simp only: prefix_km2)
    with b assms(6,7,8) G(5) show False
      by metis
  qed
  then show "lex_literal (METRIC_alts G) ''km2'' = None"
    unfolding G(2) by (rule lex_literal_none)
  have "\<forall>b\<in>set (get_non_metric_units V). \<not> prefix b ''km2''"
  proof (intro ballI notI)
    fix b assume b: "b \<in> set (get_non_metric_units V)" and "prefix b ''km2''"
    then have "b = [] \<or> b = ''k'' \<or> b = ''km'' \<or> b = ''km2''"
      by (simp only: prefix_km2)
    with b assms(10,11,12) G(6) show False
      by metis
  qed
  then show "lex_literal (NON_METRIC_alts G) ''km2'' = None"
    unfolding G(3) by (rule lex_literal_none)
qed



subsection \<open>The annotation token\<close>

lemma upto_last_brace_shape:
  "upto_last_brace run = [] \<or> (\<exists>body. upto_last_brace run = body @ ''}'')"
proof (cases "dropWhile (\<lambda>c. c \<noteq> CHR ''}'') (rev run)")
  case Nil
  then show ?thesis by (simp add: upto_last_brace_def)
next
  case (Cons d ds)
  then have "dropWhile (\<lambda>c. c \<noteq> CHR ''}'') (rev run) \<noteq> []" by simp
  from hd_dropWhile[OF this] Cons have "d = CHR ''}''" by simp
  with Cons show ?thesis by (simp add: upto_last_brace_def)
qed

lemma upto_last_brace_prefix: "\<exists>x. run = upto_last_brace run @ x"
proof -
  let ?Q = "\<lambda>c. c \<noteq> CHR ''}''"
  have "rev (dropWhile ?Q (rev run)) @ rev (takeWhile ?Q (rev run))
      = rev (takeWhile ?Q (rev run) @ dropWhile ?Q (rev run))"
    by (simp only: rev_append)
  also have "\<dots> = run"
    by simp
  finally have "run = upto_last_brace run @ rev (takeWhile ?Q (rev run))"
    by (simp add: upto_last_brace_def)
  then show ?thesis ..
qed

lemma length_dropWhile_stop:
  "\<not> Q y \<Longrightarrow> Suc (length ys) \<le> length (dropWhile Q (xs @ y # ys))"
  by (induction xs) auto

lemma upto_last_brace_reaches:
  "run = u @ CHR ''}'' # v \<Longrightarrow> Suc (length u) \<le> length (upto_last_brace run)"
  using length_dropWhile_stop[of "\<lambda>c. c \<noteq> CHR ''}''" "CHR ''}''" "rev u" "rev v"]
  by (simp add: upto_last_brace_def)

lemma brace_printable: "is_printable CHR ''}''"
  by (simp add: is_printable_def)

lemma takeWhile_printable_body:
  "list_all is_printable body \<Longrightarrow>
   takeWhile is_printable (body @ CHR ''}'' # rest) = body @ CHR ''}'' # takeWhile is_printable rest"
  by (induction body) (simp_all add: brace_printable)


subsection \<open>Enough fuel, and numbers without a leading zero\<close>

lemma produces_Some: "(\<forall>(t, r)\<in>set xs. Q t \<and> length r < l) \<Longrightarrow> produces Q l (Some xs)"
  by (simp add: produces_def)

lemma produces_mono: "produces Q l m \<Longrightarrow> l \<le> l' \<Longrightarrow> produces Q l' m"
  by (fastforce simp: produces_def)

lemma produces_both: "produces Q l a \<Longrightarrow> produces Q l b \<Longrightarrow> produces Q l (both a b)"
  by (auto simp: produces_def both_def)

lemma produces_bind_list:
  "(\<forall>(a, r)\<in>set xs. produces Q l (f a r)) \<Longrightarrow> produces Q l (bind_all (Some xs) f)"
proof (induction xs)
  case Nil
  then show ?case by (simp add: bind_all_simps produces_def)
next
  case (Cons x xs)
  obtain a r where x: "x = (a, r)" by (cases x)
  from Cons.prems x have "produces Q l (f a r)" by simp
  moreover from Cons have "produces Q l (bind_all (Some xs) f)" by simp
  ultimately show ?case unfolding x by (simp add: bind_all_simps produces_both)
qed

lemma produces_bind:
  assumes "produces Q l m"
    and "\<And>a r. Q a \<Longrightarrow> length r < l \<Longrightarrow> produces Q' l' (f a r)"
  shows "produces Q' l' (bind_all m f)"
proof -
  from assms(1) obtain xs where m: "m = Some xs" and xs: "\<forall>(t, r)\<in>set xs. Q t \<and> length r < l"
    by (auto simp: produces_def)
  from xs assms(2) have "\<forall>(a, r)\<in>set xs. produces Q' l' (f a r)"
    by auto
  then show ?thesis unfolding m by (rule produces_bind_list)
qed

lemma lex_literal_shorter:
  assumes "[] \<notin> set alts" and "lex_literal alts s = Some (a, r)"
  shows "length r < length s"
proof -
  from assms(2) have f: "find (\<lambda>a. prefix a s) alts = Some a" and r: "r = drop (length a) s"
    by (auto simp: lex_literal_def split: option.splits)
  from f have "a \<in> set alts" and "prefix a s"
    by (auto simp: find_Some_iff)
  with assms(1) have "a \<noteq> []" and "length a \<le> length s"
    by (auto simp: prefix_length_le)
  with r show ?thesis by (cases a) auto
qed

lemma lex_NON_ZERO_DIGITS_shorter:
  assumes "lex_NON_ZERO_DIGITS s = Some (t, r)"
  shows "length r < length s \<and> nonzero_number t \<and> number_digits t = t"
proof -
  from assms obtain c s' where s: "s = c # s'" and c: "is_digit c" "c \<noteq> CHR ''0''"
    and t: "t = c # takeWhile is_digit s'" and r: "r = dropWhile is_digit s'"
    by (cases s) (auto simp: lex_NON_ZERO_DIGITS_def split: if_splits)
  from c have "c \<noteq> CHR ''+''" "c \<noteq> CHR ''-''"
    by (auto simp: is_digit_def)
  then have nd: "number_digits t = t"
    by (simp add: number_digits_def t)
  have "list_all is_digit (takeWhile is_digit s')"
    by (auto simp: list_all_iff dest: set_takeWhileD)
  with c nd have "nonzero_number t"
    by (simp add: nonzero_number_def t)
  moreover have "length r < length s"
    unfolding r s using length_dropWhile_le[of is_digit s'] by simp
  ultimately show ?thesis using nd by simp
qed

lemma lex_EXPONENT_shorter:
  assumes "lex_EXPONENT s = Some (t, r)"
  shows "length r < length s \<and> nonzero_number t"
proof (cases s)
  case Nil
  with assms show ?thesis by (simp add: lex_EXPONENT_def)
next
  case (Cons c s')
  show ?thesis
  proof (cases "c = CHR ''+'' \<or> c = CHR ''-''")
    case True
    with assms Cons obtain t' where l: "lex_NON_ZERO_DIGITS s' = Some (t', r)" and t: "t = c # t'"
      by (auto simp: lex_EXPONENT_def split: option.splits)
    from lex_NON_ZERO_DIGITS_shorter[OF l] have "length r < length s'" and "nonzero_number t'"
      by simp_all
    moreover from True t have "number_digits t = t'"
      by (auto simp: number_digits_def)
    moreover from lex_NON_ZERO_DIGITS_shorter[OF l] have "number_digits t' = t'"
      by simp
    ultimately show ?thesis
      using Cons by (simp add: nonzero_number_def)
  next
    case False
    with assms Cons have "lex_NON_ZERO_DIGITS s = Some (t, r)"
      by (auto simp: lex_EXPONENT_def)
    from lex_NON_ZERO_DIGITS_shorter[OF this] show ?thesis by simp
  qed
qed

lemma lex_ANNOTATION_shorter:
  "lex_ANNOTATION s = Some (t, r) \<Longrightarrow> length r < length s"
  by (cases s) (auto simp: lex_ANNOTATION_def Let_def split: if_splits)

lemma lex_OPERATOR_shorter:
  "lex_OPERATOR s = Some (t, r) \<Longrightarrow> length r < length s"
  by (cases s) (auto simp: lex_OPERATOR_def split: if_splits)

lemma lex_DIVIDE_shorter:
  "lex_DIVIDE s = Some (t, r) \<Longrightarrow> length r < length s"
  by (cases s) (auto simp: lex_DIVIDE_def split: if_splits)

lemma token_of_mem:
  "(t, r) \<in> set (token_of ty m) \<longleftrightarrow> (\<exists>v. m = Some (v, r) \<and> t = Token ty v)"
  by (auto simp: token_of_def split: option.splits)

lemma p_simple_unit_sound:
  assumes "wf_lark G" and "(t, r) \<in> set (p_simple_unit G s)"
  shows "numbers_nonzero t \<and> length r < length s"
proof -
  from assms(1) have e: "[] \<notin> set (PREFIX_alts G)" "[] \<notin> set (METRIC_alts G)"
    "[] \<notin> set (NON_METRIC_alts G)"
    by (simp_all add: wf_lark_def)
  from assms(2) show ?thesis
    unfolding p_simple_unit_def lex_FACTOR_def
    by (auto simp: token_of_mem
        dest!: lex_literal_shorter[OF e(1)] lex_literal_shorter[OF e(2)]
               lex_literal_shorter[OF e(3)] lex_NON_ZERO_DIGITS_shorter)
qed

lemma p_annotatable_sound:
  assumes "wf_lark G"
    and "\<And>r. length r < length s \<Longrightarrow> produces numbers_nonzero (length r) (rec r)"
  shows "produces numbers_nonzero (length s) (p_annotatable G rec s)"
  unfolding p_annotatable_def
proof (rule produces_both)
  show "produces numbers_nonzero (length s)
     (Some (concat (map (\<lambda>(u, r).
                  map (\<lambda>(e, r'). (Tree R_annotatable [u, e], r')) (token_of T_EXPONENT (lex_EXPONENT r))
                  @ [(Tree R_annotatable [u], r)])
                (p_simple_unit G s))))"
    by (rule produces_Some)
      (auto simp: token_of_mem dest!: p_simple_unit_sound[OF assms(1)] lex_EXPONENT_shorter)
next
  show "produces numbers_nonzero (length s)
     (case s of
          [] \<Rightarrow> Some []
        | c # r \<Rightarrow>
            if c = CHR ''('' then
              bind_all (rec r) (\<lambda>t r'.
                (case r' of
                   [] \<Rightarrow> Some []
                 | d # r'' \<Rightarrow> if d = CHR '')'' then Some [(Tree R_annotatable [t], r'')]
                              else Some []))
            else Some [])"
  proof (cases s)
    case Nil
    then show ?thesis by (simp add: produces_def)
  next
    case (Cons c r)
    show ?thesis
    proof (cases "c = CHR ''(''")
      case False
      with Cons show ?thesis by (simp add: produces_def)
    next
      case True
      from Cons have "produces numbers_nonzero (length r) (rec r)"
        by (intro assms(2)) simp
      then have "produces numbers_nonzero (length s) (bind_all (rec r) (\<lambda>t r'.
                (case r' of
                   [] \<Rightarrow> Some []
                 | d # r'' \<Rightarrow> if d = CHR '')'' then Some [(Tree R_annotatable [t], r'')]
                              else Some [])))"
        by (rule produces_bind) (auto simp: produces_def Cons split: list.splits)
      with Cons True show ?thesis by simp
    qed
  qed
qed

lemma p_component_sound:
  assumes "wf_lark G"
    and "\<And>r. length r < length s \<Longrightarrow> produces numbers_nonzero (length r) (rec r)"
  shows "produces numbers_nonzero (length s) (p_component G rec s)"
  unfolding p_component_def
proof (rule produces_both)
  show "produces numbers_nonzero (length s)
     (bind_all (p_annotatable G rec s) (\<lambda>a r.
          Some (map (\<lambda>(n, r'). (Tree R_component [a, n], r'))
                    (token_of T_ANNOTATION (lex_ANNOTATION r))
                @ [(Tree R_component [a], r)])))"
    by (rule produces_bind[OF p_annotatable_sound[OF assms]])
      (auto simp: produces_def token_of_mem dest!: lex_ANNOTATION_shorter)
next
  show "produces numbers_nonzero (length s)
     (Some (map (\<lambda>(n, r). (Tree R_component [n], r))
                  (token_of T_ANNOTATION (lex_ANNOTATION s))))"
    by (rule produces_Some) (auto simp: token_of_mem dest!: lex_ANNOTATION_shorter)
qed

lemma p_term_rest_sound:
  assumes "\<And>r'. length r' < length r0 \<Longrightarrow> produces numbers_nonzero (length r') (pc r')"
  shows "numbers_nonzero t \<Longrightarrow> length r \<le> k \<Longrightarrow> length r \<le> length r0 \<Longrightarrow>
         produces numbers_nonzero (Suc (length r)) (p_term_rest pc (Suc k) t r)"
proof (induction k arbitrary: t r)
  case 0
  then show ?case
    by (simp add: lex_OPERATOR_def both_simps produces_def)
next
  case (Suc k)
  have here: "produces numbers_nonzero (Suc (length r)) (Some [(t, r)])"
    using Suc.prems(1) by (simp add: produces_def)
  have more: "produces numbers_nonzero (Suc (length r))
       (case lex_OPERATOR r of
          None \<Rightarrow> Some []
        | Some (opr, r1) \<Rightarrow>
            bind_all (pc r1) (\<lambda>c r2.
              p_term_rest pc (Suc k) (Tree R_term [t, Token T_OPERATOR opr, c]) r2))"
  proof (cases "lex_OPERATOR r")
    case None
    then show ?thesis by (simp add: produces_def)
  next
    case (Some a)
    obtain opr r1 where a: "a = (opr, r1)" by (cases a)
    from Some a have r1: "length r1 < length r"
      by (auto dest: lex_OPERATOR_shorter)
    with Suc.prems have "produces numbers_nonzero (length r1) (pc r1)"
      by (intro assms) simp
    then have "produces numbers_nonzero (Suc (length r)) (bind_all (pc r1) (\<lambda>c r2.
              p_term_rest pc (Suc k) (Tree R_term [t, Token T_OPERATOR opr, c]) r2))"
    proof (rule produces_bind)
      fix c and r2 :: string
      assume c: "numbers_nonzero c" and r2: "length r2 < length r1"
      from c Suc.prems(1) have "numbers_nonzero (Tree R_term [t, Token T_OPERATOR opr, c])"
        by simp
      moreover from r1 r2 Suc.prems have "length r2 \<le> k" "length r2 \<le> length r0"
        by simp_all
      ultimately have "produces numbers_nonzero (Suc (length r2))
          (p_term_rest pc (Suc k) (Tree R_term [t, Token T_OPERATOR opr, c]) r2)"
        by (rule Suc.IH)
      then show "produces numbers_nonzero (Suc (length r))
          (p_term_rest pc (Suc k) (Tree R_term [t, Token T_OPERATOR opr, c]) r2)"
        using r1 r2 by (elim produces_mono) simp
    qed
    with Some a show ?thesis by simp
  qed
  from produces_both[OF here more] show ?case
    by (simp only: p_term_rest_Suc)
qed

lemma p_term_sound:
  assumes "wf_lark G"
  shows "length s \<le> n \<Longrightarrow> produces numbers_nonzero (length s) (p_term G (Suc n) s)"
proof (induction n arbitrary: s)
  case 0
  have "produces numbers_nonzero (length s) (p_component G (p_term G 0) s)"
    using 0 by (intro p_component_sound[OF assms]) simp
  then have "produces numbers_nonzero (length s)
     (bind_all (p_component G (p_term G 0) s) (\<lambda>c r.
       p_term_rest (p_component G (p_term G 0)) 0 (Tree R_term [c]) r))"
  proof (rule produces_bind)
    fix c and r :: string
    assume "length r < length s"
    with 0 show "produces numbers_nonzero (length s)
        (p_term_rest (p_component G (p_term G 0)) 0 (Tree R_term [c]) r)"
      by simp
  qed
  then show ?case by (simp only: p_term_Suc)
next
  case (Suc n)
  let ?rec = "p_term G (Suc n)"
  have pc: "produces numbers_nonzero (length r) (p_component G ?rec r)" if "length r \<le> Suc n" for r
  proof (rule p_component_sound[OF assms])
    fix r' :: string assume "length r' < length r"
    with that have "length r' \<le> n" by simp
    then show "produces numbers_nonzero (length r') (?rec r')" by (rule Suc.IH)
  qed
  from pc[OF Suc.prems] have "produces numbers_nonzero (length s)
     (bind_all (p_component G ?rec s) (\<lambda>c r.
       p_term_rest (p_component G ?rec) (Suc n) (Tree R_term [c]) r))"
  proof (rule produces_bind)
    fix c and r :: string
    assume c: "numbers_nonzero c" and r: "length r < length s"
    have "produces numbers_nonzero (Suc (length r))
        (p_term_rest (p_component G ?rec) (Suc n) (Tree R_term [c]) r)"
    proof (rule p_term_rest_sound[where ?r0.0 = s])
      fix r' :: string assume "length r' < length s"
      with Suc.prems have "length r' \<le> Suc n" by simp
      then show "produces numbers_nonzero (length r') (p_component G ?rec r')" by (rule pc)
    next
      show "numbers_nonzero (Tree R_term [c])" using c by simp
      show "length r \<le> n" using r Suc.prems by simp
      show "length r \<le> length s" using r by simp
    qed
    then show "produces numbers_nonzero (length s)
        (p_term_rest (p_component G ?rec) (Suc n) (Tree R_term [c]) r)"
      using r by (elim produces_mono) simp
  qed
  then show ?case by (simp only: p_term_Suc)
qed

lemma p_start_sound:
  assumes "wf_lark G"
  shows "produces numbers_nonzero (Suc (length s)) (p_start G (Suc (length s)) s)"
  unfolding p_start_def
proof (rule produces_both)
  show "produces numbers_nonzero (Suc (length s))
     (case lex_DIVIDE s of
          None \<Rightarrow> Some []
        | Some (d, r) \<Rightarrow>
            bind_all (p_term G (Suc (length s)) r)
              (\<lambda>t r'. Some [(Tree R_start [Token T_DIVIDE d, t], r')]))"
  proof (cases "lex_DIVIDE s")
    case None
    then show ?thesis by (simp add: produces_def)
  next
    case (Some a)
    obtain d r where a: "a = (d, r)" by (cases a)
    from Some a have "length r \<le> length s"
      by (auto dest: lex_DIVIDE_shorter)
    from p_term_sound[OF assms this]
    have "produces numbers_nonzero (Suc (length s)) (bind_all (p_term G (Suc (length s)) r)
              (\<lambda>t r'. Some [(Tree R_start [Token T_DIVIDE d, t], r')]))"
      by (rule produces_bind) (use \<open>length r \<le> length s\<close> in \<open>simp add: produces_def\<close>)
    with Some a show ?thesis by simp
  qed
next
  have "length s \<le> length s" by simp
  from p_term_sound[OF assms this]
  show "produces numbers_nonzero (Suc (length s))
     (bind_all (p_term G (Suc (length s)) s) (\<lambda>t r. Some [(Tree R_start [t], r)]))"
    by (rule produces_bind) (simp add: produces_def)
qed

lemma derivations_sound:
  assumes "wf_lark G"
  shows "\<exists>ts. derivations G s = Some ts \<and> list_all numbers_nonzero ts"
proof -
  from p_start_sound[OF assms, of s] obtain xs where
    xs: "p_start G (Suc (length s)) s = Some xs" and q: "\<forall>(t, r)\<in>set xs. numbers_nonzero t"
    by (auto simp: produces_def)
  from q have "list_all numbers_nonzero (map fst (filter (\<lambda>(t, r). r = []) xs))"
    by (auto simp: list_all_iff)
  with xs show ?thesis by (simp add: derivations_def)
qed

lemma ucum_parser_wf: "ucum_parser V = Inr G \<Longrightarrow> wf_lark G"
  by (auto simp: ucum_parser_def Lark_def bad_terminal_def wf_lark_def by_width_def
      split: if_splits)

lemma parse_and_transform_returns: "parse_and_transform V data \<noteq> None"
proof (cases "ucum_parser V")
  case (Inl e)
  then show ?thesis by (simp add: parse_and_transform_def)
next
  case (Inr G)
  from derivations_sound[OF ucum_parser_wf[OF Inr], of data]
  obtain ts where "derivations G data = Some ts" by blast
  with Inr show ?thesis
    by (cases ts) (simp_all add: parse_and_transform_def parse_def)
qed

subsection \<open>Vocabularies with overlapping symbols\<close>

lemma ucum_parser_m2:
  "ucum_parser m2_vocabulary =
     Inr \<lparr> PREFIX_alts = [''k''], METRIC_alts = [''m2'', ''m''], NON_METRIC_alts = [''%''] \<rparr>"
  by (simp add: ucum_parser_def Lark_def format_grammar_def m2_vocabulary_def
      bad_terminal_def by_width_def)


lemmas rule_eval =
  derivations_def p_start_def p_term_Suc p_term_0 p_term_rest_Suc p_term_rest_0
  p_component_def p_annotatable_def p_simple_unit_def token_of_def
  lex_literal_def lex_NON_ZERO_DIGITS_def lex_FACTOR_def lex_EXPONENT_def lex_ANNOTATION_def
  lex_OPERATOR_def lex_DIVIDE_def is_digit_def is_printable_def upto_last_brace_def
  bind_all_simps both_simps

lemma derivations_m2_km2:
  "derivations \<lparr> PREFIX_alts = [''k''], METRIC_alts = [''m2'', ''m''], NON_METRIC_alts = [''%''] \<rparr>
     ''km2'' =
     Some [Tree R_start [Tree R_term [Tree R_component [Tree R_annotatable
       [Tree R_simple_unit [Token T_PREFIX ''k'', Token T_METRIC ''m2'']]]]]]"
  by (simp add: rule_eval del: p_term.simps p_term_rest.simps)



subsection \<open>A prefix followed by an atom\<close>






section \<open>Claims\<close>

text \<open>
  C6. Parsing \<open>km2\<close> is claimed to return one metric unit with symbol \<open>m\<close>, prefix
  \<open>k\<close> and exponent 2 whenever \<open>k\<close> is a prefix, \<open>m\<close> a metric atom and \<open>km\<close> no
  atom. In a vocabulary that also has the metric atom \<open>m2\<close>, the METRIC terminal takes
  the longer symbol: the unit is \<open>m2\<close> and there is no exponent.
\<close>

theorem km2_read_as_atom_m2:
  "''k'' \<in> set (get_prefixes m2_vocabulary)
   \<and> ''m'' \<in> set (get_base_units m2_vocabulary @ get_metric_units m2_vocabulary)
   \<and> ''km'' \<notin> set (get_base_units m2_vocabulary @ get_metric_units m2_vocabulary)
   \<and> ''km'' \<notin> set (get_non_metric_units m2_vocabulary)
   \<and> parse_and_transform m2_vocabulary ''km2'' =
       Some (Inr (PList [PDict [(''prefix'', PStr ''k''), (''type'', PStr ''metric''),
                                (''unit'', PStr ''m2'')]]))"
  by (simp add: parse_and_transform_def ucum_parser_m2 parse_def derivations_m2_km2
      token_callback_def rule_callback_def PREFIX_def METRIC_def first_char_def)
    (simp add: m2_vocabulary_def)

text \<open>
  C6, amended. Parsing \<open>km2\<close> returns exactly one term, a metric unit with symbol
  \<open>m\<close>, prefix \<open>k\<close> and exponent 2, without annotation and without operator, for
  every vocabulary in which \<open>k\<close> is a prefix, \<open>m\<close> a metric atom and no other symbol
  can be read at the start of \<open>km2\<close> or of \<open>m2\<close>: neither \<open>km\<close> nor \<open>km2\<close> is a
  prefix, none of \<open>k\<close>, \<open>km\<close>, \<open>km2\<close>, \<open>m2\<close> is a metric atom and none of \<open>k\<close>,
  \<open>km\<close>, \<open>km2\<close> a non-metric atom. The input then has one derivation.
\<close>

theorem parse_km2:
  assumes "ucum_parser V = Inr G"
    and "''k'' \<in> set (get_prefixes V)"
    and "''m'' \<in> set (get_base_units V @ get_metric_units V)"
    and "''km'' \<notin> set (get_prefixes V)" and "''km2'' \<notin> set (get_prefixes V)"
    and "''k'' \<notin> set (get_base_units V @ get_metric_units V)"
    and "''km'' \<notin> set (get_base_units V @ get_metric_units V)"
    and "''km2'' \<notin> set (get_base_units V @ get_metric_units V)"
    and "''m2'' \<notin> set (get_base_units V @ get_metric_units V)"
    and "''k'' \<notin> set (get_non_metric_units V)"
    and "''km'' \<notin> set (get_non_metric_units V)"
    and "''km2'' \<notin> set (get_non_metric_units V)"
  shows "derivations G ''km2'' =
     Some [Tree R_start [Tree R_term [Tree R_component [Tree R_annotatable
       [Tree R_simple_unit [Token T_PREFIX ''k'', Token T_METRIC ''m''],
        Token T_EXPONENT ''2'']]]]]
   \<and> parse_and_transform V ''km2'' =
     Some (Inr (PList [PDict [(''prefix'', PStr ''k''), (''type'', PStr ''metric''),
                              (''unit'', PStr ''m''), (''exponent'', PInt 2)]]))"
proof -
  note t = km2_tokens[OF assms]
  have u: "p_simple_unit G ''km2'' =
      [(Tree R_simple_unit [Token T_PREFIX ''k'', Token T_METRIC ''m''], ''2'')]"
    by (simp add: p_simple_unit_def token_of_def t lex_FACTOR_def lex_NON_ZERO_DIGITS_def
        is_digit_def)
  have d: "derivations G ''km2'' =
     Some [Tree R_start [Tree R_term [Tree R_component [Tree R_annotatable
       [Tree R_simple_unit [Token T_PREFIX ''k'', Token T_METRIC ''m''],
        Token T_EXPONENT ''2'']]]]]"
    by (simp add: derivations_def p_start_def p_term_Suc p_term_0 p_term_rest_Suc p_term_rest_0
      p_component_def p_annotatable_def u token_of_def
      lex_NON_ZERO_DIGITS_def lex_EXPONENT_def lex_ANNOTATION_def
      lex_OPERATOR_def lex_DIVIDE_def is_digit_def bind_all_simps both_simps
      del: p_term.simps p_term_rest.simps)
  show ?thesis
    by (simp add: d parse_and_transform_def assms(1) parse_def token_callback_def
        rule_callback_def EXPONENT_def PREFIX_def METRIC_def py_int_def digits_val_def
        digit_val_def is_digit_def first_char_def)
qed

theorem parse_km2_witness:
  "ucum_parser sample_vocabulary = Inr sample_lark
   \<and> ''k'' \<in> set (get_prefixes sample_vocabulary)
   \<and> ''m'' \<in> set (get_base_units sample_vocabulary @ get_metric_units sample_vocabulary)
   \<and> ''km'' \<notin> set (get_base_units sample_vocabulary @ get_metric_units sample_vocabulary)
   \<and> ''km'' \<notin> set (get_non_metric_units sample_vocabulary)
   \<and> derivations sample_lark ''km2'' =
     Some [Tree R_start [Tree R_term [Tree R_component [Tree R_annotatable
       [Tree R_simple_unit [Token T_PREFIX ''k'', Token T_METRIC ''m''],
        Token T_EXPONENT ''2'']]]]]
   \<and> parse_and_transform sample_vocabulary ''km2'' =
     Some (Inr (PList [PDict [(''prefix'', PStr ''k''), (''type'', PStr ''metric''),
                              (''unit'', PStr ''m''), (''exponent'', PInt 2)]]))"
proof -
  have h: "''k'' \<in> set (get_prefixes sample_vocabulary)"
    "''m'' \<in> set (get_base_units sample_vocabulary @ get_metric_units sample_vocabulary)"
    "''km'' \<notin> set (get_prefixes sample_vocabulary)"
    "''km2'' \<notin> set (get_prefixes sample_vocabulary)"
    "''k'' \<notin> set (get_base_units sample_vocabulary @ get_metric_units sample_vocabulary)"
    "''km'' \<notin> set (get_base_units sample_vocabulary @ get_metric_units sample_vocabulary)"
    "''km2'' \<notin> set (get_base_units sample_vocabulary @ get_metric_units sample_vocabulary)"
    "''m2'' \<notin> set (get_base_units sample_vocabulary @ get_metric_units sample_vocabulary)"
    "''k'' \<notin> set (get_non_metric_units sample_vocabulary)"
    "''km'' \<notin> set (get_non_metric_units sample_vocabulary)"
    "''km2'' \<notin> set (get_non_metric_units sample_vocabulary)"
    by (simp_all add: sample_vocabulary_def)
  from parse_km2[OF ucum_parser_sample h] h show ?thesis
    by (simp only: ucum_parser_sample simp_thms)
qed



text \<open>
  C3. Parsing \<open>kg.m/s2\<close> is claimed to return a flat sequence of three terms. The
  input has one derivation, and the three terms are as claimed, but \<^verbatim>\<open>start\<close> with a
  single child returns \<^verbatim>\<open>[args[0]]\<close>: the result is a list whose only element is the list
  of the three terms. (With a leading divide, \<^verbatim>\<open>start\<close> does return the flat list.)
\<close>

theorem parse_kg_m_s2_nested:
  "parse_and_transform sample_vocabulary ''kg.m/s2'' =
     Some (Inr (PList [PList
       [PDict [(''prefix'', PStr ''k''), (''type'', PStr ''metric''), (''unit'', PStr ''g'')],
        PDict [(''operator'', PStr ''.''), (''type'', PStr ''metric''), (''unit'', PStr ''m'')],
        PDict [(''operator'', PStr ''/''), (''type'', PStr ''metric''), (''unit'', PStr ''s''),
               (''exponent'', PInt 2)]]]))"
  by (simp add: derivations_kg_m_s2 transform_eval)

text \<open>
  C2. Parsing \<open>100/{cells}\<close> is claimed to return the factor 100 followed by an
  annotation term with annotation \<open>cells\<close> and operator divide. The code returns a list
  whose only element is the list of the two terms, and the annotation is the first
  character of the token, the opening brace.
\<close>

theorem parse_100_cells_brace:
  "parse_and_transform sample_vocabulary ''100/{cells}'' =
     Some (Inr (PList [PList
       [PDict [(''factor'', PInt 100)],
        PDict [(''operator'', PStr ''/''), (''annotation'', PStr ''{'')]]]))"
  by (simp add: derivations_100_cells transform_eval)

text \<open>
  C1. Parsing \<open>g/(8.h){shift}\<close> is claimed to succeed with two terms, the second a
  group with an annotation. The input has one derivation, so the parser accepts it, but
  the transformer fails: the parenthesised term is a list, and \<^verbatim>\<open>component\<close> merges it
  with the annotation as if it were a dictionary, which raises TypeError.
\<close>

theorem parse_g_8h_shift_raises:
  "parse sample_lark ''g/(8.h){shift}'' \<noteq> Some (Inl UnexpectedInput)
   \<and> parse_and_transform sample_vocabulary ''g/(8.h){shift}'' = Some (Inl (VisitError TypeError))"
  by (simp add: derivations_g_8h_shift transform_eval)

text \<open>
  C4. An exponent token is claimed to give the exponent field the value of the whole
  token, whatever its length. \<^verbatim>\<open>EXPONENT\<close> converts tokens of one and two characters
  only: \<open>m23\<close> has exponent 23, but for the tokens \<open>123\<close> and \<open>-12\<close> the callback
  returns None, and \<^verbatim>\<open>annotatable\<close> raises TypeError when it merges None.
\<close>

theorem exponent_of_three_characters_raises:
  "parse_and_transform sample_vocabulary ''m23'' =
     Some (Inr (PList [PDict [(''type'', PStr ''metric''), (''unit'', PStr ''m''),
                              (''exponent'', PInt 23)]]))
   \<and> EXPONENT ''123'' = Inr PNone
   \<and> parse_and_transform sample_vocabulary ''m123'' = Some (Inl (VisitError TypeError))
   \<and> EXPONENT ''-12'' = Inr PNone
   \<and> parse_and_transform sample_vocabulary ''m-12'' = Some (Inl (VisitError TypeError))"
  by (simp add: derivations_m23 derivations_m123 derivations_m_minus_12 transform_eval)




text \<open>
  C9. If the list of prefixes, of metric atoms (base units and metric units together) or
  of non-metric atoms is empty, building the grammar fails: the hole of the grammar text
  is filled with an empty alternation, which the library rejects with its
  \<open>GrammarError\<close> when the grammar is constructed, and no grammar is returned.
  \<^verbatim>\<open>parse_and_transform\<close> passes the error on.
\<close>

theorem empty_vocabulary_set_fails:
  assumes "get_prefixes V = [] \<or> get_base_units V @ get_metric_units V = []
           \<or> get_non_metric_units V = []"
  shows "ucum_parser V = Inl GrammarError \<and> parse_and_transform V data = Some (Inl GrammarError)"
  using assms
  by (auto simp: parse_and_transform_def ucum_parser_def Lark_def format_grammar_def bad_terminal_def)

theorem empty_vocabulary_set_fails_witness:
  "get_prefixes (sample_vocabulary\<lparr>get_prefixes := []\<rparr>) = []
   \<and> ucum_parser (sample_vocabulary\<lparr>get_prefixes := []\<rparr>) = Inl GrammarError
   \<and> parse_and_transform (sample_vocabulary\<lparr>get_prefixes := []\<rparr>) ''m'' = Some (Inl GrammarError)"
  using empty_vocabulary_set_fails[of "sample_vocabulary\<lparr>get_prefixes := []\<rparr>" "''m''"]
  by simp

text \<open>
  C8. An annotation token is claimed to end at the first closing brace, so that
  \<open>{a}.{b}\<close> would be two annotations joined by an operator. The character class of
  \<^verbatim>\<open>STRING\<close> contains the braces and its star is greedy: the token of \<open>{a}.{b}\<close> is the
  whole input, and the input has one derivation, a single annotation.
\<close>

theorem annotation_runs_past_first_brace:
  "lex_ANNOTATION ''{a}.{b}'' = Some (''{a}.{b}'', [])
   \<and> derivations sample_lark ''{a}.{b}'' =
       Some [Tree R_start [Tree R_term [Tree R_component [Token T_ANNOTATION ''{a}.{b}'']]]]"
  by (simp add: derivations_two_annotations)
    (simp add: lex_ANNOTATION_def upto_last_brace_def is_printable_def)

text \<open>
  C8, amended. For every input, an annotation token is an opening brace, a body of
  characters 33 to 126 (braces included) and a closing brace, and it is the longest
  such prefix of the input: the body extends to the last closing brace that a run of
  these characters reaches. Every input that starts with such a prefix has an annotation
  token.
\<close>

theorem lex_ANNOTATION_longest:
  "(lex_ANNOTATION s = Some (tok, rest) \<longrightarrow>
      (\<exists>body. tok = CHR ''{'' # body @ ''}'' \<and> s = tok @ rest \<and> list_all is_printable body
         \<and> (\<forall>body' rest'. s = CHR ''{'' # body' @ CHR ''}'' # rest' \<and> list_all is_printable body'
               \<longrightarrow> length body' \<le> length body)))
   \<and> ((\<exists>body' rest'. s = CHR ''{'' # body' @ CHR ''}'' # rest' \<and> list_all is_printable body')
        \<longrightarrow> lex_ANNOTATION s \<noteq> None)"
proof (intro conjI impI)
  assume a: "lex_ANNOTATION s = Some (tok, rest)"
  then obtain r where s: "s = CHR ''{'' # r"
    by (cases s) (auto simp: lex_ANNOTATION_def split: if_splits)
  define run where "run = takeWhile is_printable r"
  define bwc where "bwc = upto_last_brace run"
  from a s have ne: "bwc \<noteq> []" and tok: "tok = CHR ''{'' # bwc" and rest: "rest = drop (length bwc) r"
    by (auto simp: lex_ANNOTATION_def Let_def bwc_def run_def split: if_splits)
  from upto_last_brace_shape[of run] ne obtain body where body: "bwc = body @ ''}''"
    by (auto simp: bwc_def)
  from upto_last_brace_prefix[of run] obtain x where x: "run = bwc @ x"
    by (auto simp: bwc_def)
  have "r = run @ dropWhile is_printable r"
    by (simp add: run_def)
  with x have r: "r = bwc @ x @ dropWhile is_printable r"
    by simp
  have "drop (length bwc) (bwc @ x @ dropWhile is_printable r) = x @ dropWhile is_printable r"
    by simp
  with r rest have "r = bwc @ rest"
    by simp
  with s tok have whole: "s = tok @ rest"
    by simp
  have "set bwc \<subseteq> set run"
    using x by (metis set_append sup_ge1)
  moreover have "\<forall>c\<in>set run. is_printable c"
    unfolding run_def by (auto dest: set_takeWhileD)
  ultimately have pr: "list_all is_printable body"
    using body by (auto simp: list_all_iff)
  have mx: "\<forall>body' rest'. s = CHR ''{'' # body' @ CHR ''}'' # rest' \<and> list_all is_printable body'
               \<longrightarrow> length body' \<le> length body"
  proof (intro allI impI)
    fix body' rest'
    assume h: "s = CHR ''{'' # body' @ CHR ''}'' # rest' \<and> list_all is_printable body'"
    with s have "r = body' @ CHR ''}'' # rest'" by simp
    with h have "run = body' @ CHR ''}'' # takeWhile is_printable rest'"
      by (simp add: run_def takeWhile_printable_body)
    from upto_last_brace_reaches[OF this] body show "length body' \<le> length body"
      by (simp add: bwc_def)
  qed
  from tok body whole pr mx
  show "\<exists>body. tok = CHR ''{'' # body @ ''}'' \<and> s = tok @ rest \<and> list_all is_printable body
         \<and> (\<forall>body' rest'. s = CHR ''{'' # body' @ CHR ''}'' # rest' \<and> list_all is_printable body'
               \<longrightarrow> length body' \<le> length body)"
    by (intro exI[of _ body]) simp
next
  assume "\<exists>body' rest'. s = CHR ''{'' # body' @ CHR ''}'' # rest' \<and> list_all is_printable body'"
  then obtain body' rest' where s: "s = CHR ''{'' # body' @ CHR ''}'' # rest'"
    and p: "list_all is_printable body'" by blast
  from p have "takeWhile is_printable (body' @ CHR ''}'' # rest')
      = body' @ CHR ''}'' # takeWhile is_printable rest'"
    by (rule takeWhile_printable_body)
  from upto_last_brace_reaches[OF this]
  have "upto_last_brace (takeWhile is_printable (body' @ CHR ''}'' # rest')) \<noteq> []"
    by auto
  with s show "lex_ANNOTATION s \<noteq> None"
    by (simp add: lex_ANNOTATION_def Let_def)
qed

theorem lex_ANNOTATION_longest_witness:
  "lex_ANNOTATION ''{a}}.m {b}'' = Some (''{a}}'', ''.m {b}'')
   \<and> (\<exists>body. ''{a}}'' = CHR ''{'' # body @ ''}'' \<and> list_all is_printable body)
   \<and> ''{a}}.m {b}'' = CHR ''{'' # ''a'' @ CHR ''}'' # ''}.m {b}''
   \<and> list_all is_printable ''a''
   \<and> lex_ANNOTATION ''{a}}.m {b}'' \<noteq> None"
  using lex_ANNOTATION_longest[of "''{a}}.m {b}''" "''{a}}''" "''.m {b}''"]
  by (auto simp: lex_ANNOTATION_def upto_last_brace_def is_printable_def)

text \<open>
  C7. A digit sequence that starts with zero is never an exponent or a factor: for every
  vocabulary and every input, each derivation has only FACTOR and EXPONENT tokens whose
  first digit is not zero, and the terminals do not match \<open>0\<close>. So \<open>m0\<close> and \<open>0\<close>
  have no derivation: parsing fails with the library's \<open>UnexpectedInput\<close> (the syntax
  error of the specification) and nothing else is returned.
\<close>

theorem zero_is_no_exponent_or_factor:
  "(\<forall>V G s. ucum_parser V = Inr G \<longrightarrow>
      (\<exists>ts. derivations G s = Some ts \<and> list_all numbers_nonzero ts))
   \<and> lex_FACTOR ''0'' = None
   \<and> lex_EXPONENT ''0'' = None
   \<and> parse_and_transform sample_vocabulary ''m0'' = Some (Inl UnexpectedInput)
   \<and> parse_and_transform sample_vocabulary ''0'' = Some (Inl UnexpectedInput)"
proof (intro conjI allI impI)
  fix V G s
  assume "ucum_parser V = Inr G"
  then have "wf_lark G" by (rule ucum_parser_wf)
  then show "\<exists>ts. derivations G s = Some ts \<and> list_all numbers_nonzero ts"
    by (rule derivations_sound)
next
  show "lex_FACTOR ''0'' = None"
    by (simp add: lex_FACTOR_def lex_NON_ZERO_DIGITS_def)
  show "lex_EXPONENT ''0'' = None"
    by (simp add: lex_EXPONENT_def lex_NON_ZERO_DIGITS_def)
  show "parse_and_transform sample_vocabulary ''m0'' = Some (Inl UnexpectedInput)"
    by (simp add: parse_and_transform_def ucum_parser_sample parse_def derivations_m0)
  show "parse_and_transform sample_vocabulary ''0'' = Some (Inl UnexpectedInput)"
    by (simp add: parse_and_transform_def ucum_parser_sample parse_def derivations_0)
qed

theorem zero_is_no_exponent_or_factor_witness:
  "ucum_parser sample_vocabulary = Inr sample_lark
   \<and> derivations sample_lark ''100/{cells}'' =
     Some [Tree R_start [Tree R_term
       [Tree R_term [Tree R_component [Tree R_annotatable
          [Tree R_simple_unit [Token T_FACTOR ''100'']]]],
        Token T_OPERATOR ''/'',
        Tree R_component [Token T_ANNOTATION ''{cells}'']]]]
   \<and> numbers_nonzero (Tree R_start [Tree R_term
       [Tree R_term [Tree R_component [Tree R_annotatable
          [Tree R_simple_unit [Token T_FACTOR ''100'']]]],
        Token T_OPERATOR ''/'',
        Tree R_component [Token T_ANNOTATION ''{cells}'']]])"
proof -
  from zero_is_no_exponent_or_factor ucum_parser_sample
  obtain ts where "derivations sample_lark ''100/{cells}'' = Some ts"
    and "list_all numbers_nonzero ts"
    by blast
  then show ?thesis
    by (auto simp: derivations_100_cells ucum_parser_sample)
qed

end
